theory Spec2Isabelle
  imports Complex_Main "HOL-Library.Monad_Syntax"
begin

section \<open>JavaScript numbers\<close>

text \<open>
  The program computes with JavaScript numbers. A number is modelled as a finite real or
  one of the three special values of IEEE 754. Arithmetic on finite values is exact: the
  model has no rounding, no overflow and no underflow, and it has one zero (a nonzero
  number divided by zero gives the infinity whose sign is the sign of the numerator).
  Everything else follows the language: \<open>0/0\<close>, \<open>Infinity - Infinity\<close> and
  \<open>0 * Infinity\<close> are \<open>NaN\<close>, \<open>NaN\<close> is absorbing, every comparison with \<open>NaN\<close> is
  false, and \<open>Math.pow(x, 0)\<close> is \<open>1\<close> for every \<open>x\<close>.
\<close>

datatype jsnum = Fin real | PInf | NInf | NaN


fun isFinite :: "jsnum \<Rightarrow> bool" where
  "isFinite (Fin x) = True"
| "isFinite PInf = False"
| "isFinite NInf = False"
| "isFinite NaN = False"

fun js_neg :: "jsnum \<Rightarrow> jsnum" where
  "js_neg (Fin x) = Fin (- x)"
| "js_neg PInf = NInf"
| "js_neg NInf = PInf"
| "js_neg NaN = NaN"

fun js_add :: "jsnum \<Rightarrow> jsnum \<Rightarrow> jsnum" where
  "js_add (Fin x) (Fin y) = Fin (x + y)"
| "js_add NaN b = NaN"
| "js_add a NaN = NaN"
| "js_add PInf NInf = NaN"
| "js_add NInf PInf = NaN"
| "js_add PInf b = PInf"
| "js_add a PInf = PInf"
| "js_add NInf b = NInf"
| "js_add a NInf = NInf"

definition js_sub :: "jsnum \<Rightarrow> jsnum \<Rightarrow> jsnum" where
  "js_sub a b = js_add a (js_neg b)"

text \<open>The sign of a number (\<open>0\<close> for zero and for \<open>NaN\<close>) and the infinity of a given sign.\<close>

fun sign_of :: "jsnum \<Rightarrow> real" where
  "sign_of (Fin x) = sgn x"
| "sign_of PInf = 1"
| "sign_of NInf = - 1"
| "sign_of NaN = 0"

definition inf_of_sign :: "real \<Rightarrow> jsnum" where
  "inf_of_sign s = (if 0 < s then PInf else if s < 0 then NInf else NaN)"

fun js_mul :: "jsnum \<Rightarrow> jsnum \<Rightarrow> jsnum" where
  "js_mul (Fin x) (Fin y) = Fin (x * y)"
| "js_mul NaN b = NaN"
| "js_mul a NaN = NaN"
| "js_mul a b = inf_of_sign (sign_of a * sign_of b)"

fun js_div :: "jsnum \<Rightarrow> jsnum \<Rightarrow> jsnum" where
  "js_div (Fin x) (Fin y) = (if y = 0 then inf_of_sign (sgn x) else Fin (x / y))"
| "js_div NaN b = NaN"
| "js_div a NaN = NaN"
| "js_div (Fin x) b = Fin 0"
| "js_div a (Fin y) = inf_of_sign (sign_of a * (if y < 0 then - 1 else 1))"
| "js_div a b = NaN"

text \<open>\<open>Math.pow\<close> with an exponent that is an array index or the literal \<open>2\<close>.\<close>

fun js_pow :: "jsnum \<Rightarrow> nat \<Rightarrow> jsnum" where
  "js_pow b 0 = Fin 1"
| "js_pow (Fin x) t = Fin (x ^ t)"
| "js_pow PInf t = PInf"
| "js_pow NInf t = (if even t then PInf else NInf)"
| "js_pow NaN t = NaN"

fun js_lt :: "jsnum \<Rightarrow> jsnum \<Rightarrow> bool" where
  "js_lt (Fin x) (Fin y) = (x < y)"
| "js_lt NaN b = False"
| "js_lt a NaN = False"
| "js_lt a NInf = False"
| "js_lt PInf b = False"
| "js_lt a b = True"

definition js_gt :: "jsnum \<Rightarrow> jsnum \<Rightarrow> bool" where
  "js_gt a b = js_lt b a"

fun js_le :: "jsnum \<Rightarrow> jsnum \<Rightarrow> bool" where
  "js_le (Fin x) (Fin y) = (x \<le> y)"
| "js_le NaN b = False"
| "js_le a NaN = False"
| "js_le NInf b = True"
| "js_le a PInf = True"
| "js_le a b = False"



fun js_max :: "jsnum \<Rightarrow> jsnum \<Rightarrow> jsnum" where
  "js_max NaN b = NaN"
| "js_max a NaN = NaN"
| "js_max a b = (if js_lt a b then b else a)"

fun js_min :: "jsnum \<Rightarrow> jsnum \<Rightarrow> jsnum" where
  "js_min NaN b = NaN"
| "js_min a NaN = NaN"
| "js_min a b = (if js_lt b a then b else a)"

fun js_sqrt :: "jsnum \<Rightarrow> jsnum" where
  "js_sqrt (Fin x) = (if x < 0 then NaN else Fin (sqrt x))"
| "js_sqrt PInf = PInf"
| "js_sqrt NInf = NaN"
| "js_sqrt NaN = NaN"

fun js_log :: "jsnum \<Rightarrow> jsnum" where
  "js_log (Fin x) = (if x < 0 then NaN else if x = 0 then NInf else Fin (ln x))"
| "js_log PInf = PInf"
| "js_log NInf = NaN"
| "js_log NaN = NaN"

fun js_cos :: "jsnum \<Rightarrow> jsnum" where
  "js_cos (Fin x) = Fin (cos x)"
| "js_cos a = NaN"


section \<open>Valuation\<close>

text \<open>
  \<^verbatim>\<open>function npv(cashflows, rate) {
    return cashflows.reduce((acc, cf, t) => acc + cf / Math.pow(1 + rate, t), 0); }\<close>
  The same function is declared in both components. \<open>npv_from\<close> is the \<open>reduce\<close> loop:
  the flows not yet visited, the index \<open>t\<close> of the next one and the accumulator.
\<close>

fun npv_from :: "jsnum list \<Rightarrow> jsnum \<Rightarrow> nat \<Rightarrow> jsnum \<Rightarrow> jsnum" where
  "npv_from [] rate t acc = acc"
| "npv_from (cf # cfs) rate t acc =
     npv_from cfs rate (Suc t) (js_add acc (js_div cf (js_pow (js_add (Fin 1) rate) t)))"

definition npv :: "jsnum list \<Rightarrow> jsnum \<Rightarrow> jsnum" where
  "npv cashflows rate = npv_from cashflows rate 0 (Fin 0)"








section \<open>Summary statistics\<close>

text \<open>
  \<^verbatim>\<open>function mean(arr) { return arr.reduce((a, b) => a + b, 0) / (arr.length || 1); }
  function std(arr) {
    const m = mean(arr);
    return Math.sqrt(mean(arr.map((x) => (x - m) ** 2))); }\<close>
\<close>

definition mean :: "jsnum list \<Rightarrow> jsnum" where
  "mean arr =
     js_div (foldl js_add (Fin 0) arr) (Fin (if length arr = 0 then 1 else real (length arr)))"

definition std :: "jsnum list \<Rightarrow> jsnum" where
  "std arr = (let m = mean arr in js_sqrt (mean (map (\<lambda>x. js_pow (js_sub x m) 2) arr)))"

section \<open>Risk scoring\<close>

text \<open>
  A risk item has a name and two ratings, \<open>p\<close> and \<open>i\<close> in the source; the fields are
  written \<open>risk_p\<close> and \<open>risk_i\<close> here. \<open>riskLevel\<close> returns the label of the level (its
  second field is a style class).
  \<^verbatim>\<open>function riskLevel(score) {
    if (score <= 6) return { label: "Low", ... };
    if (score <= 14) return { label: "Medium", ... };
    return { label: "High", ... }; }
  const totalRiskScore = useMemo(() => {
    const total = risks.reduce((acc, r) => acc + r.p * r.i, 0);
    return total / risks.length; }, [risks]);
  const totalLevel = useMemo(() => riskLevel(totalRiskScore), [totalRiskScore]);\<close>
\<close>

record RiskItem =
  risk_name :: string
  risk_p :: jsnum
  risk_i :: jsnum




section \<open>The fallback narrative\<close>

text \<open>
  \<open>fallbackAnalysis\<close> builds a text around a verdict; the verdict is the part modelled.
  The three verdict strings of the source are, in this order, "not recommended" (the
  initial value), "recommended" and "needs optimisation".
  \<^verbatim>\<open>const goodNPV = npvValue > 0;
  const goodIRR = irrValue > rate;
  let verdict = <not recommended>;
  if (goodNPV && goodIRR) verdict = <recommended>;
  else if (goodNPV || goodIRR) verdict = <needs optimisation>;\<close>
\<close>

datatype verdict = NotRecommended | Recommended | NeedsOptimization

definition fallbackAnalysis_verdict :: "jsnum \<Rightarrow> jsnum \<Rightarrow> jsnum \<Rightarrow> verdict" where
  "fallbackAnalysis_verdict npvValue irrValue rate =
     (let goodNPV = js_gt npvValue (Fin 0);
          goodIRR = js_gt irrValue rate
      in if goodNPV \<and> goodIRR then Recommended
         else if goodNPV \<or> goodIRR then NeedsOptimization
         else NotRecommended)"

section \<open>Percentiles\<close>




section \<open>Histogram and empirical CDF\<close>

text \<open>
  \<^verbatim>\<open>function clamp(v, a, b) { return Math.max(a, Math.min(b, v)); }\<close>
\<close>

definition clamp :: "jsnum \<Rightarrow> jsnum \<Rightarrow> jsnum \<Rightarrow> jsnum" where
  "clamp v a b = js_max a (js_min b v)"











section \<open>The Monte Carlo simulation\<close>

text \<open>
  \<open>Math.random\<close> is modelled by a source: the sequence of the numbers it will return, and
  a position in it that every call advances.
  \<^verbatim>\<open>function randn() {
    let u = 0, v = 0;
    while (u === 0) u = Math.random();
    while (v === 0) v = Math.random();
    return Math.sqrt(-2.0 * Math.log(u)) * Math.cos(2.0 * Math.PI * v); }\<close>
  Each \<open>while\<close> loop draws until the number drawn is not \<open>0\<close>; on a source that returns
  \<open>0\<close> forever it does not return, which is the value \<open>None\<close>.
\<close>

type_synonym random_source = "nat \<Rightarrow> real"

partial_function (option) draw_nonzero :: "random_source \<Rightarrow> nat \<Rightarrow> (real \<times> nat) option" where
  "draw_nonzero src n = (if src n = 0 then draw_nonzero src (Suc n) else Some (src n, Suc n))"

definition randn :: "random_source \<Rightarrow> nat \<Rightarrow> (jsnum \<times> nat) option" where
  "randn src n =
     do {
       (u, n1) \<leftarrow> draw_nonzero src n;
       (v, n2) \<leftarrow> draw_nonzero src n1;
       Some (js_mul (js_sqrt (js_mul (Fin (- 2)) (js_log (Fin u))))
                    (js_cos (js_mul (js_mul (Fin 2) (Fin pi)) (Fin v))), n2)
     }"

text \<open>
  The component's props (\<open>cashflows\<close>, \<open>baseRate\<close>, \<open>rows\<close>) and its state. A row of the
  schedule has the fields \<open>revenue\<close>, \<open>cost\<close>, \<open>net\<close> and \<open>year\<close> (prefixed here, as \<open>cost\<close>
  is also a local of the loop). \<open>runs\<close> is a finite number: the input handler stores
  \<open>clamp(Number(value), 200, 50000)\<close>.
\<close>

record row =
  row_revenue :: jsnum
  row_cost :: jsnum
  row_net :: jsnum
  row_year :: jsnum

record sim_state =
  cashflows :: "jsnum list"
  baseRate :: jsnum
  rows :: "row list"
  runs :: real
  revVol :: jsnum
  costVol :: jsnum
  revTrend :: jsnum
  costTrend :: jsnum
  randomizeRate :: bool
  rateVol :: jsnum
  sim_values :: "jsnum list"
  isRunning :: bool

text \<open>
  \<^verbatim>\<open>for (let y = 0; y < baseYears; y++) {
    const baseRev = rows[y].revenue * Math.pow(1 + revTrend, y);
    const baseCost = rows[y].cost * Math.pow(1 + costTrend, y);
    const revShock = 1 + randn() * revVol;
    const costShock = 1 + randn() * costVol;
    const rev = baseRev * revShock;
    const cost = baseCost * costShock;
    simCF.push(rev - cost);
  }\<close>
  The loop over the rows not yet visited, with the index \<open>y\<close> of the next one, the
  series \<open>simCF\<close> built so far and the position of the random source.
\<close>

fun sim_years ::
  "sim_state \<Rightarrow> random_source \<Rightarrow> row list \<Rightarrow> nat \<Rightarrow> jsnum list \<Rightarrow> nat \<Rightarrow> (jsnum list \<times> nat) option"
where
  "sim_years s src [] y simCF n = Some (simCF, n)"
| "sim_years s src (r # rs) y simCF n =
     (let baseRev = js_mul (row_revenue r) (js_pow (js_add (Fin 1) (revTrend s)) y);
          baseCost = js_mul (row_cost r) (js_pow (js_add (Fin 1) (costTrend s)) y)
      in case randn src n of
           None \<Rightarrow> None
         | Some (z1, n1) \<Rightarrow>
             (let revShock = js_add (Fin 1) (js_mul z1 (revVol s))
              in case randn src n1 of
                   None \<Rightarrow> None
                 | Some (z2, n2) \<Rightarrow>
                     (let costShock = js_add (Fin 1) (js_mul z2 (costVol s));
                          rev = js_mul baseRev revShock;
                          cost = js_mul baseCost costShock
                      in sim_years s src rs (Suc y) (simCF @ [js_sub rev cost]) n2)))"

text \<open>
  The body of the loop over the trials, returning the outcome pushed to \<open>out\<close>.
  \<^verbatim>\<open>const simCF = [t0];          // const t0 = cashflows[0];
  for (let y = 0; ...) { ... }
  let r = baseRate;
  if (randomizeRate) {
    const rr = baseRate + randn() * rateVol;
    r = clamp(rr, 0.01, 0.8);
  }
  out.push(npv(simCF, r));\<close>
  When \<open>cashflows\<close> is empty \<open>t0\<close> is \<open>undefined\<close>, which the division in \<open>npv\<close> turns into
  \<open>NaN\<close>.
\<close>

definition trial :: "sim_state \<Rightarrow> random_source \<Rightarrow> nat \<Rightarrow> (jsnum \<times> nat) option" where
  "trial s src n =
     (let t0 = (case cashflows s of [] \<Rightarrow> NaN | c # _ \<Rightarrow> c)
      in case sim_years s src (rows s) 0 [t0] n of
           None \<Rightarrow> None
         | Some (simCF, n1) \<Rightarrow>
             if randomizeRate s then
               (case randn src n1 of
                  None \<Rightarrow> None
                | Some (z, n2) \<Rightarrow>
                    (let rr = js_add (baseRate s) (js_mul z (rateVol s));
                         r = clamp rr (Fin 0.01) (Fin 0.8)
                     in Some (npv simCF r, n2)))
             else Some (npv simCF (baseRate s), n1))"

text \<open>
  \<^verbatim>\<open>for (let k = 0; k < runs; k++) { ...; out.push(npv(simCF, r)); }\<close>
\<close>

function trials ::
  "sim_state \<Rightarrow> random_source \<Rightarrow> nat \<Rightarrow> jsnum list \<Rightarrow> nat \<Rightarrow> (jsnum list \<times> nat) option"
where
  "trials s src k out n =
     (if real k < runs s then
        (case trial s src n of
           None \<Rightarrow> None
         | Some (v, n1) \<Rightarrow> trials s src (Suc k) (out @ [v]) n1)
      else Some (out, n))"
  by pat_completeness auto
termination
proof (relation "measure (\<lambda>(s, src, k, out, n). nat \<lceil>runs s\<rceil> - k)")
  show "wf (measure (\<lambda>(s, src, k, out, n). nat \<lceil>runs s\<rceil> - k))" by simp
next
  fix s :: sim_state and src :: random_source and k :: nat and out :: "jsnum list"
    and n :: nat and x2 :: "jsnum \<times> nat" and v :: jsnum and n1 :: nat
  assume "real k < runs s"
  then have "int k < \<lceil>runs s\<rceil>" by (simp add: less_ceiling_iff)
  then have "k < nat \<lceil>runs s\<rceil>" by linarith
  then show "((s, src, Suc k, out @ [v], n1), (s, src, k, out, n))
      \<in> measure (\<lambda>(s, src, k, out, n). nat \<lceil>runs s\<rceil> - k)"
    by simp
qed

declare trials.simps [simp del]

text \<open>
  \<^verbatim>\<open>const runSim = async () => {
    setIsRunning(true);
    await new Promise((r) => setTimeout(r, 100));
    const out = [];
    ... the loop over the trials ...
    setValues(out);
    setIsRunning(false); };\<close>
  The pause of 100 ms is not modelled. The result is the state after the run and the
  position of the random source.
\<close>

definition runSim :: "sim_state \<Rightarrow> random_source \<Rightarrow> nat \<Rightarrow> (sim_state \<times> nat) option" where
  "runSim s src n =
     (let s1 = s\<lparr>isRunning := True\<rparr>
      in case trials s1 src 0 [] n of
           None \<Rightarrow> None
         | Some (out, n') \<Rightarrow> Some (s1\<lparr>sim_values := out, isRunning := False\<rparr>, n'))"

text \<open>
  The outcomes \<open>vs\<close> are in trial order from the position \<open>n\<close> of the source: the first
  is the outcome of the trial run at \<open>n\<close>, the second that of the trial run where the
  first one left the source, and so on, the last one leaving it at \<open>n'\<close>.
\<close>

fun trial_chain :: "sim_state \<Rightarrow> random_source \<Rightarrow> nat \<Rightarrow> jsnum list \<Rightarrow> nat \<Rightarrow> bool" where
  "trial_chain s src n [] n' = (n' = n)"
| "trial_chain s src n (v # vs) n' =
     (case trial s src n of
        None \<Rightarrow> False
      | Some (v', n1) \<Rightarrow> v' = v \<and> trial_chain s src n1 vs n')"

section \<open>Properties\<close>

subsection \<open>Present value of the scenario\<close>

text \<open>
  C1. The end-to-end scenario: for the series \<open>[-800000000, 230000000]\<close> and the rate
  \<open>0.25\<close>, \<open>npv\<close> returns \<open>-800000000 + 230000000/1.25 = -616000000\<close>. Every intermediate
  value (\<open>1.25\<close>, \<open>184000000\<close>, \<open>-616000000\<close>) is a double, so the exact result is
  also the floating one.
\<close>

theorem npv_end_to_end:
  "npv [Fin (- 800000000), Fin 230000000] (Fin 0.25) = Fin (- 616000000)"
  by (simp add: npv_def)

subsection \<open>Arithmetic on finite values\<close>

lemma js_pow_Fin: "js_pow (Fin x) t = Fin (x ^ t)"
  by (cases t) simp_all

lemma not_finite_add_right: "\<not> isFinite b \<Longrightarrow> \<not> isFinite (js_add a b)"
  by (cases a; cases b) simp_all

lemma not_finite_inf_of_sign: "\<not> isFinite (inf_of_sign s)"
  by (simp add: inf_of_sign_def)

subsection \<open>Present value outside the domain\<close>

text \<open>Away from the singularity the loop computes the discounted sum, whatever the sign of the base.\<close>

lemma npv_from_Fin:
  "1 + r \<noteq> 0 \<Longrightarrow>
   npv_from (map Fin cs) (Fin r) t (Fin a) = Fin (a + (\<Sum>k<length cs. cs ! k / (1 + r) ^ (t + k)))"
proof (induction cs arbitrary: t a)
  case Nil
  then show ?case by simp
next
  case (Cons c cs)
  have shift: "(\<Sum>k<Suc (length cs). (c # cs) ! k / (1 + r) ^ (t + k)) =
      c / (1 + r) ^ t + (\<Sum>k<length cs. cs ! k / (1 + r) ^ (Suc t + k))"
    by (simp add: sum.lessThan_Suc_shift del: sum.lessThan_Suc)
  have "npv_from (map Fin (c # cs)) (Fin r) t (Fin a) =
      npv_from (map Fin cs) (Fin r) (Suc t) (Fin (a + c / (1 + r) ^ t))"
    using Cons.prems by (simp add: js_pow_Fin)
  also have "\<dots> = Fin (a + c / (1 + r) ^ t + (\<Sum>k<length cs. cs ! k / (1 + r) ^ (Suc t + k)))"
    by (rule Cons.IH [OF Cons.prems])
  also have "\<dots> = Fin (a + (\<Sum>k<length (c # cs). (c # cs) ! k / (1 + r) ^ (t + k)))"
    unfolding length_Cons shift by (simp only: add.assoc)
  finally show ?case .
qed

text \<open>At the rate \<open>-1\<close> every flow after the first is divided by zero, and a non-finite
  accumulator stays non-finite.\<close>

lemma npv_from_singular:
  "\<not> isFinite acc \<Longrightarrow> \<not> isFinite (npv_from (map Fin cs) (Fin (- 1)) (Suc t) acc)"
proof (induction cs arbitrary: t acc)
  case Nil
  then show ?case by simp
next
  case (Cons c cs)
  have "\<not> isFinite (js_add acc (js_div (Fin c) (js_pow (js_add (Fin 1) (Fin (- 1))) (Suc t))))"
    by (rule not_finite_add_right) (simp add: not_finite_inf_of_sign)
  then show ?case using Cons.IH by simp
qed

text \<open>
  C2, as stated: for every rate \<open>\<le> -1\<close>, \<open>npv\<close> fails or returns a non-finite value.
  It does not: \<open>npv\<close> has no domain check, and at the rate \<open>-2\<close> the base \<open>1 + rate\<close> is
  \<open>-1\<close>, so the scenario's series gets the finite value \<open>-800000000 - 230000000\<close>.
\<close>

theorem npv_finite_below_minus_one:
  "js_le (Fin (- 2)) (Fin (- 1)) \<and>
   npv [Fin (- 800000000), Fin 230000000] (Fin (- 2)) = Fin (- 1030000000)"
  by (simp add: npv_def)

text \<open>
  C2, amended: \<open>npv\<close> never raises. For a series of finite flows and a rate below \<open>-1\<close>
  it returns the finite number \<open>\<Sum>t. series[t] / (1 + rate)^t\<close>; at the rate \<open>-1\<close> it
  returns a non-finite value when the series has two or more flows, and the flow itself
  when the series has one.
\<close>

theorem npv_rate_le_minus_one:
  "(r < - 1 \<longrightarrow>
      npv (map Fin cs) (Fin r) = Fin (\<Sum>t<length cs. cs ! t / (1 + r) ^ t)) \<and>
   (2 \<le> length cs \<longrightarrow> \<not> isFinite (npv (map Fin cs) (Fin (- 1)))) \<and>
   (length cs = 1 \<longrightarrow> npv (map Fin cs) (Fin (- 1)) = Fin (cs ! 0))"
proof (intro conjI impI)
  assume "r < - 1"
  then have "1 + r \<noteq> 0" by simp
  from npv_from_Fin [OF this, of cs 0 0]
  show "npv (map Fin cs) (Fin r) = Fin (\<Sum>t<length cs. cs ! t / (1 + r) ^ t)"
    by (simp add: npv_def)
next
  assume "2 \<le> length cs"
  then obtain c0 c1 rest where cs: "cs = c0 # c1 # rest"
    by (cases cs; cases "tl cs") auto
  have "\<not> isFinite (js_add (Fin c0) (js_div (Fin c1) (Fin 0)))"
    by (rule not_finite_add_right) (simp add: not_finite_inf_of_sign)
  from npv_from_singular [OF this, of rest 1]
  show "\<not> isFinite (npv (map Fin cs) (Fin (- 1)))"
    by (simp add: npv_def cs)
next
  assume "length cs = 1"
  then obtain c where "cs = [c]" by (cases cs) auto
  then show "npv (map Fin cs) (Fin (- 1)) = Fin (cs ! 0)"
    by (simp add: npv_def)
qed

theorem npv_rate_le_minus_one_witness:
  "npv [Fin 1, Fin 1] (Fin (- 2)) = Fin 0 \<and> \<not> isFinite (npv [Fin 1, Fin 1] (Fin (- 1)))
    \<and> npv [Fin 5] (Fin (- 1)) = Fin 5"
  using npv_rate_le_minus_one [of "- 2" "[1, 1]"] npv_rate_le_minus_one [of 0 "[5]"]
  by (simp add: lessThan_Suc)

subsection \<open>The Newton iteration\<close>













subsection \<open>Standard deviation\<close>

lemma foldl_js_add_Fin: "foldl js_add (Fin a) (map Fin xs) = Fin (a + sum_list xs)"
  by (induction xs arbitrary: a) (simp_all add: add.assoc)

lemma mean_Fin: "xs \<noteq> [] \<Longrightarrow> mean (map Fin xs) = Fin (sum_list xs / real (length xs))"
  by (simp add: mean_def foldl_js_add_Fin)

text \<open>
  C10. For a non-empty sequence of (finite) outcomes, \<open>std\<close> is the population standard
  deviation: the square root of the sum of squared deviations from the mean divided by
  \<open>n\<close>, not by \<open>n - 1\<close>.
\<close>

theorem std_population:
  assumes "xs \<noteq> []"
  shows "std (map Fin xs) =
    Fin (sqrt ((\<Sum>x\<leftarrow>xs. (x - sum_list xs / real (length xs))\<^sup>2) / real (length xs)))"
proof -
  define m where "m = sum_list xs / real (length xs)"
  have sq: "map (\<lambda>x. js_pow (js_sub x (Fin m)) 2) (map Fin xs) = map Fin (map (\<lambda>x. (x - m)\<^sup>2) xs)"
    by (simp add: js_sub_def js_pow_Fin)
  have "mean (map Fin (map (\<lambda>x. (x - m)\<^sup>2) xs)) = Fin ((\<Sum>x\<leftarrow>xs. (x - m)\<^sup>2) / real (length xs))"
    using mean_Fin [of "map (\<lambda>x. (x - m)\<^sup>2) xs"] assms by simp
  moreover have "0 \<le> (\<Sum>x\<leftarrow>xs. (x - m)\<^sup>2) / real (length xs)"
    by (intro divide_nonneg_nonneg sum_list_nonneg) auto
  ultimately show ?thesis
    unfolding std_def Let_def mean_Fin [OF assms] m_def [symmetric] sq by simp
qed

theorem std_population_witness: "std [Fin 1, Fin 3] = Fin 1"
  using std_population [of "[1, 3]"] by simp

subsection \<open>Aggregate risk\<close>


subsection \<open>The verdict\<close>

text \<open>
  C9. The verdict depends on \<open>npvValue\<close>, \<open>irrValue\<close> and \<open>rate\<close> only through the two
  comparisons \<open>npvValue > 0\<close> and \<open>irrValue > rate\<close>: recommended when both hold, not
  recommended when neither holds, needs optimisation when exactly one holds.
\<close>

theorem fallback_verdict_cases:
  "(js_gt n (Fin 0) \<and> js_gt i r \<longrightarrow> fallbackAnalysis_verdict n i r = Recommended) \<and>
   (\<not> js_gt n (Fin 0) \<and> \<not> js_gt i r \<longrightarrow> fallbackAnalysis_verdict n i r = NotRecommended) \<and>
   (js_gt n (Fin 0) \<noteq> js_gt i r \<longrightarrow> fallbackAnalysis_verdict n i r = NeedsOptimization)"
  by (auto simp: fallbackAnalysis_verdict_def)

theorem fallback_verdict_cases_witness:
  "fallbackAnalysis_verdict (Fin 100) (Fin 0.3) (Fin 0.25) = Recommended \<and>
   fallbackAnalysis_verdict (Fin (- 100)) NaN (Fin 0.25) = NotRecommended \<and>
   fallbackAnalysis_verdict (Fin (- 100)) (Fin 0.3) (Fin 0.25) = NeedsOptimization"
  using fallback_verdict_cases [of "Fin 100" "Fin 0.3" "Fin 0.25"]
    fallback_verdict_cases [of "Fin (- 100)" NaN "Fin 0.25"]
    fallback_verdict_cases [of "Fin (- 100)" "Fin 0.3" "Fin 0.25"]
  by (simp add: js_gt_def)

subsection \<open>Percentiles\<close>







subsection \<open>Histogram\<close>












subsection \<open>Empirical CDF\<close>


subsection \<open>The simulation run\<close>

text \<open>On a source that returns a nonzero number again and again, the loops of \<open>randn\<close>
  return.\<close>

lemma draw_nonzero_found:
  "src (n + d) \<noteq> 0 \<Longrightarrow> \<exists>u n'. draw_nonzero src n = Some (u, n')"
proof (induction d arbitrary: n)
  case 0
  then show ?case by (subst draw_nonzero.simps) simp
next
  case (Suc d)
  show ?case
  proof (cases "src n = 0")
    case True
    from Suc.prems have "src (Suc n + d) \<noteq> 0" by simp
    from Suc.IH [OF this] show ?thesis
      using True by (subst draw_nonzero.simps) simp
  next
    case False
    then show ?thesis by (subst draw_nonzero.simps) simp
  qed
qed

lemma draw_nonzero_returns:
  assumes "\<forall>n. \<exists>m\<ge>n. src m \<noteq> 0"
  shows "\<exists>u n'. draw_nonzero src n = Some (u, n')"
proof -
  from assms obtain m where "n \<le> m" "src m \<noteq> 0" by blast
  then have "src (n + (m - n)) \<noteq> 0" by simp
  then show ?thesis by (rule draw_nonzero_found)
qed

lemma randn_returns:
  assumes "\<forall>n. \<exists>m\<ge>n. src m \<noteq> 0"
  shows "\<exists>z n'. randn src n = Some (z, n')"
proof -
  from draw_nonzero_returns [OF assms] obtain u n1 where "draw_nonzero src n = Some (u, n1)"
    by blast
  moreover from draw_nonzero_returns [OF assms] obtain v n2
    where "draw_nonzero src n1 = Some (v, n2)" by blast
  ultimately show ?thesis by (simp add: randn_def)
qed

lemma sim_years_returns:
  assumes "\<forall>n. \<exists>m\<ge>n. src m \<noteq> 0"
  shows "\<exists>cf n'. sim_years s src rs y simCF n = Some (cf, n')"
proof (induction rs arbitrary: y simCF n)
  case Nil
  show ?case by simp
next
  case (Cons r rs)
  from randn_returns [OF assms] obtain z1 n1 where z1: "randn src n = Some (z1, n1)" by blast
  from randn_returns [OF assms] obtain z2 n2 where z2: "randn src n1 = Some (z2, n2)" by blast
  show ?case using Cons.IH by (simp add: z1 z2 Let_def)
qed

lemma trial_returns:
  assumes "\<forall>n. \<exists>m\<ge>n. src m \<noteq> 0"
  shows "\<exists>v n'. trial s src n = Some (v, n')"
proof -
  define t0 where "t0 = (case cashflows s of [] \<Rightarrow> NaN | c # _ \<Rightarrow> c)"
  from sim_years_returns [OF assms] obtain cf n1
    where cf: "sim_years s src (rows s) 0 [t0] n = Some (cf, n1)" by blast
  from randn_returns [OF assms] obtain z n2 where z: "randn src n1 = Some (z, n2)" by blast
  show ?thesis
    unfolding trial_def Let_def t0_def [symmetric] cf by (simp add: z)
qed

text \<open>The run does not read \<open>isRunning\<close>.\<close>

lemma sim_years_isRunning:
  "sim_years (s\<lparr>isRunning := b\<rparr>) src rs y simCF n = sim_years s src rs y simCF n"
  by (induction rs arbitrary: y simCF n) (simp_all add: Let_def split: option.splits)

lemma trial_isRunning: "trial (s\<lparr>isRunning := b\<rparr>) src n = trial s src n"
  by (simp add: trial_def sim_years_isRunning Let_def split: option.splits)

lemma trials_returns:
  assumes "\<forall>n. \<exists>m\<ge>n. src m \<noteq> 0" and "runs s = real N"
  shows "k \<le> N \<Longrightarrow>
    \<exists>vs n'. trials s src k out n = Some (out @ vs, n') \<and> length vs = N - k \<and>
      trial_chain s src n vs n'"
proof (induction "N - k" arbitrary: k out n)
  case 0
  then have "\<not> real k < runs s" using assms(2) by simp
  then have "trials s src k out n = Some (out, n)" by (subst trials.simps) simp
  with 0 show ?case by simp
next
  case (Suc d)
  then have lt: "real k < runs s" using assms(2) by simp
  from trial_returns [OF assms(1)] obtain v n1 where v: "trial s src n = Some (v, n1)" by blast
  have unfold: "trials s src k out n = trials s src (Suc k) (out @ [v]) n1"
    using lt v by (subst trials.simps) simp
  have "d = N - Suc k" "Suc k \<le> N" using Suc.hyps(2) by simp_all
  from Suc.hyps(1) [OF this, of "out @ [v]" n1] obtain vs n' where
    vs: "trials s src (Suc k) (out @ [v]) n1 = Some ((out @ [v]) @ vs, n')"
      "length vs = N - Suc k" "trial_chain s src n1 vs n'"
    by blast
  have "trials s src k out n = Some (out @ (v # vs), n')" using unfold vs(1) by simp
  moreover have "length (v # vs) = N - k" using vs(2) Suc.hyps(2) by simp
  moreover have "trial_chain s src n (v # vs) n'" using v vs(3) by simp
  ultimately show ?case by blast
qed

text \<open>
  C4. On a random source that returns a nonzero number again and again, a run with the
  trial count \<open>runs = N \<ge> 1\<close> returns; the outcomes it stores are exactly \<open>N\<close>, in trial
  order, and the cash flows, the base rate and the schedule are those of the start.
\<close>

theorem runSim_outcomes:
  assumes "\<forall>n. \<exists>m\<ge>n. src m \<noteq> 0" and "runs s = real N" and "1 \<le> N"
  shows "\<exists>s' n'. runSim s src n = Some (s', n') \<and>
    length (sim_values s') = N \<and> trial_chain s src n (sim_values s') n' \<and>
    cashflows s' = cashflows s \<and> rows s' = rows s \<and> baseRate s' = baseRate s"
proof -
  let ?s1 = "s\<lparr>isRunning := True\<rparr>"
  have runs: "runs ?s1 = real N" using assms(2) by simp
  from trials_returns [OF assms(1) runs, of 0 "[]" n] obtain vs n' where
    vs: "trials ?s1 src 0 [] n = Some (vs, n')" "length vs = N" "trial_chain ?s1 src n vs n'"
    by auto
  have chain: "trial_chain s src n vs n'"
    using vs(3)
  proof (induction vs arbitrary: n)
    case Nil
    then show ?case by simp
  next
    case (Cons v vs)
    then show ?case by (auto simp: trial_isRunning split: option.splits)
  qed
  show ?thesis
    unfolding runSim_def Let_def vs(1) using vs(2) chain by simp
qed

theorem runSim_outcomes_witness:
  "\<exists>s' n'.
     runSim \<lparr>cashflows = [Fin (- 800000000), Fin 230000000], baseRate = Fin 0.25,
       rows = [\<lparr>row_revenue = Fin 450000000, row_cost = Fin 220000000,
                row_net = Fin 230000000, row_year = Fin 1\<rparr>],
       runs = 2, revVol = Fin 0.15, costVol = Fin 0.12, revTrend = Fin 0.03,
       costTrend = Fin 0.02, randomizeRate = True, rateVol = Fin 0.05, sim_values = [],
       isRunning = False\<rparr> (\<lambda>k. 1 / 2) 0 = Some (s', n') \<and>
     length (sim_values s') = 2 \<and>
     cashflows s' = [Fin (- 800000000), Fin 230000000]"
  (is "\<exists>s' n'. runSim ?s ?src 0 = Some (s', n') \<and> _")
proof -
  have src: "\<forall>n. \<exists>m\<ge>n. ?src m \<noteq> 0" by auto
  have runs: "runs ?s = real 2" by simp
  from runSim_outcomes [OF src runs, of 0] show ?thesis by auto
qed

end
